theory Spec2Isabelle
  imports Complex_Main "HOL-Library.AList" "HOL-Library.Multiset" "HOL-Library.Log_Nat"
begin

section \<open>The anti-cheat report server (server/main.py)\<close>

text \<open>
  The server keeps one JSON document, \<open>reports.json\<close>, holding the list of submitted
  reports and a dictionary of per-player aggregates keyed by the lower-cased username.
  Every request handler loads the whole document, works on the loaded copy and, for the
  two mutating handlers, writes the whole document back.

  Conventions of the embedding:
  \<^item> A Python \<open>float\<close> is the rational number it denotes (\<open>rat\<close>); every floating-point
    operation is the exact operation followed by rounding to the nearest double
    (\<open>float_round\<close>). Infinities and NaN do not occur: scores are validated to lie
    between 0 and 100.
  \<^item> A \<open>datetime\<close> is an integer count of microseconds on one time line; \<open>isoformat()\<close>
    is taken to be injective, so the stored string is identified with that integer.
  \<^item> A string is a list of 8-bit characters; \<open>str.lower()\<close> is ASCII lower-casing.
  \<^item> A dictionary whose iteration order is observable (\<open>data["reputation"]\<close>) is an
    association list in insertion order: assigning an existing key replaces its value in
    place, assigning a new key appends it (\<open>AList.update\<close>), as Python dictionaries do.
  \<^item> The file is a value of type \<open>data\<close>; \<open>json.dumps\<close> followed by \<open>json.loads\<close> is
    the identity on it. Whether a read or a write of the file succeeds is an input of
    each request. A file that no longer parses (emptied or partly written) is
    represented by the empty document, which is what \<open>load_reports\<close>, the only reader,
    returns for it.
\<close>

subsection \<open>Floating-point arithmetic\<close>

text \<open>Rounding to the nearest integer, a tie going to the even one.\<close>

definition round_half_even :: "rat \<Rightarrow> int" where
  "round_half_even y =
     (let f = \<lfloor>y\<rfloor>; d = y - of_int f
      in if d < 1 / 2 then f else if 1 / 2 < d then f + 1
         else if even f then f else f + 1)"

text \<open>For \<open>x > 0\<close>, the integer \<open>e\<close> with \<open>2\<^sup>e \<le> x < 2\<^sup>e\<^sup>+\<^sup>1\<close>.\<close>

definition binary_exponent :: "rat \<Rightarrow> int" where
  "binary_exponent x =
     (if 1 \<le> x then bitlen \<lfloor>x\<rfloor> - 1 else - bitlen (\<lceil>1 / x\<rceil> - 1))"

text \<open>
  The double nearest to \<open>x\<close>, a tie going to the even significand: 53 significant bits,
  exponents from -1022 (below that the spacing stays \<open>2\<^sup>-\<^sup>1\<^sup>0\<^sup>7\<^sup>4\<close>). Overflow is left out.
\<close>

definition float_round :: "rat \<Rightarrow> rat" where
  "float_round x =
     (if x = 0 then 0
      else let e = max (binary_exponent \<bar>x\<bar>) (- 1022); q = 2 powi (e - 52)
           in of_int (round_half_even (x / q)) * q)"

text \<open>
  \<open>sum(xs)\<close> on a list of floats: starting from 0, the items are added from left to
  right, each addition rounded.
\<close>

definition float_sum :: "rat list \<Rightarrow> rat" where
  "float_sum xs = foldl (\<lambda>total x. float_round (total + x)) 0 xs"

text \<open>\<open>sum(xs) / len(xs)\<close>: the rounded quotient of the rounded sum by the length.\<close>

definition float_mean :: "rat list \<Rightarrow> rat" where
  "float_mean xs = float_round (float_sum xs / of_nat (length xs))"

subsection \<open>Data model\<close>

type_synonym datetime = int

text \<open>
  \<open>class PlayerReport(BaseModel)\<close>. The values of \<open>factors\<close> (\<open>Dict[str, Any]\<close>) are carried
  as opaque text; \<open>notes\<close> is spelt \<open>report_notes\<close>.
\<close>

record PlayerReport =
  username :: string
  risk_score :: rat
  game_format :: string
  timestamp :: "datetime option"
  reporter_hash :: "string option"
  factors :: "(string \<times> string) list option"
  report_notes :: "string option"

text \<open>
  The constraints of the \<open>Field(...)\<close> declarations, which the framework checks before
  \<open>submit_report\<close> runs; the score is a float.
\<close>

definition valid_report :: "PlayerReport \<Rightarrow> bool" where
  "valid_report report \<longleftrightarrow>
     2 \<le> length (username report) \<and> length (username report) \<le> 25 \<and>
     float_round (risk_score report) = risk_score report \<and>
     0 \<le> risk_score report \<and> risk_score report \<le> 100 \<and>
     game_format report \<in> {''bullet'', ''blitz'', ''rapid''} \<and>
     (case report_notes report of None \<Rightarrow> True | Some n \<Rightarrow> length n \<le> 500)"

text \<open>
  An aggregate, \<open>data["reputation"][username]\<close>. The dictionary literal of
  \<open>submit_report\<close> (lines 186-194) creates it with seven keys (\<open>rep_new\<close>); the keys
  \<open>average_risk_score\<close> and \<open>confidence_level\<close> are assigned further down in the same call
  (lines 206-210), before the aggregate is read or saved, so every stored aggregate has
  all nine (\<open>rep\<close>).
\<close>

record rep_new =
  rep_username :: string
  total_reports :: int
  risk_scores :: "rat list"
  formats :: "(string \<times> int) list"
  first_reported :: datetime
  last_reported :: datetime
  is_banned :: bool

record rep = rep_new +
  average_risk_score :: rat
  confidence_level :: string

text \<open>The document: \<open>{"reports": [...], "reputation": {...}}\<close>.\<close>

record data =
  reports :: "PlayerReport list"
  reputation :: "(string \<times> rep) list"

text \<open>The content the module writes when the file does not exist (lines 39-40).\<close>

definition initial_file :: data where
  "initial_file = \<lparr>reports = [], reputation = []\<rparr>"

subsection \<open>Helper functions\<close>

text \<open>
  \<open>load_reports\<close>: the parsed file, or the empty document when reading or parsing raises.
\<close>

definition load_reports :: "bool \<Rightarrow> data \<Rightarrow> data" where
  "load_reports read_ok file =
     (if read_ok then file else \<lparr>reports = [], reputation = []\<rparr>)"

text \<open>
  \<open>save_reports\<close>: writes the document; an exception of the write is caught and printed
  inside the function, which returns normally either way. The result is the file
  afterwards. \<open>write_text\<close> opens the file for writing, which empties it, and then
  writes: a write that raises before the file is opened leaves the file as it was, one
  that raises later (\<open>truncated\<close>) leaves a file that no longer parses.
\<close>

definition save_reports :: "bool \<Rightarrow> bool \<Rightarrow> data \<Rightarrow> data \<Rightarrow> data" where
  "save_reports write_ok truncated d file =
     (if write_ok then d
      else if truncated then \<lparr>reports = [], reputation = []\<rparr>
      else file)"

definition calculate_confidence_level :: "int \<Rightarrow> rat \<Rightarrow> string" where
  "calculate_confidence_level report_count avg_risk =
     (if report_count \<ge> 10 \<and> avg_risk \<ge> 80 then ''confirmed''
      else if report_count \<ge> 5 \<and> avg_risk \<ge> 70 then ''high''
      else if report_count \<ge> 3 \<and> avg_risk \<ge> 60 then ''medium''
      else ''low'')"

text \<open>
  \<open>str.lower()\<close> on the ASCII letters; other characters are left as they are (Python
  also lower-cases the letters beyond ASCII).
\<close>

definition lower_char :: "char \<Rightarrow> char" where
  "lower_char c =
     (if 65 \<le> (of_char c :: nat) \<and> (of_char c :: nat) \<le> 90
      then char_of ((of_char c :: nat) + 32) else c)"

definition lower :: "string \<Rightarrow> string" where
  "lower s = map lower_char s"

text \<open>
  \<open>round(x, 2)\<close>: the double nearest to the two-decimal number nearest to \<open>x\<close>, a tie
  going to the even last digit.
\<close>

definition round2 :: "rat \<Rightarrow> rat" where
  "round2 x = float_round (of_int (round_half_even (x * 100)) / 100)"

text \<open>\<open>xs[:limit]\<close>: a negative bound counts from the end.\<close>

definition slice_to :: "int \<Rightarrow> 'a list \<Rightarrow> 'a list" where
  "slice_to limit xs =
     (if 0 \<le> limit then take (nat limit) xs
      else take (length xs - nat (- limit)) xs)"

subsection \<open>Requests and responses\<close>

text \<open>
  What a request meets besides the file: whether the read and the write succeed,
  whether a failing write fails after the file has been opened, and the reading of the
  clock (\<open>datetime.now()\<close>).
\<close>

record env =
  read_ok :: bool
  write_ok :: bool
  write_truncates :: bool
  now :: datetime

text \<open>\<open>HTTPException(status_code, detail)\<close>\<close>

datatype http_exception = HTTPException int string

record submit_response =
  sr_success :: bool
  sr_message :: string
  sr_username :: string
  sr_total_reports :: int
  sr_confidence_level :: string

record banned_response =
  br_success :: bool
  br_message :: string
  br_username :: string
  br_is_banned :: bool

record reputation_view =
  rv_username :: string
  rv_total_reports :: int
  rv_average_risk_score :: rat
  rv_confidence_level :: string
  rv_first_reported :: datetime
  rv_last_reported :: datetime
  rv_report_count_by_format :: "(string \<times> int) list"
  rv_is_banned :: bool

datatype reputation_response =
  NotFound string string
| Found reputation_view

record search_entry =
  se_username :: string
  se_total_reports :: int
  se_average_risk_score :: rat
  se_confidence_level :: string
  se_last_reported :: datetime
  se_is_banned :: bool

record search_response =
  total_found :: int
  players :: "search_entry list"

subsection \<open>submit\_report\<close>

text \<open>The dictionary literal of lines 186-194.\<close>

definition new_rep :: "PlayerReport \<Rightarrow> datetime \<Rightarrow> rep_new" where
  "new_rep report ts =
     \<lparr>rep_username = username report, total_reports = 0, risk_scores = [],
      formats = [], first_reported = ts, last_reported = ts, is_banned = False\<rparr>"

text \<open>
  Lines 197-210 on the aggregate \<open>r\<close> (a new one or the stored one): count, scores,
  \<open>last_reported\<close>, the format counter, then the average and the level computed from the
  updated count and average. \<open>rep_username\<close>, \<open>first_reported\<close> and \<open>is_banned\<close> are not
  assigned. The average is \<open>sum(scores) / len(scores)\<close> in floating-point arithmetic;
  the score list has just been appended to, so the division is by a positive length.
\<close>

definition fold_report :: "PlayerReport \<Rightarrow> datetime \<Rightarrow> 'a rep_new_scheme \<Rightarrow> rep" where
  "fold_report report ts r =
     (let total = total_reports r + 1;
          scores = risk_scores r @ [risk_score report];
          format_key = game_format report;
          fmts = AList.update format_key
                   ((case map_of (formats r) format_key of None \<Rightarrow> 0 | Some c \<Rightarrow> c) + 1)
                   (formats r);
          average = float_mean scores
      in \<lparr>rep_username = rep_username r, total_reports = total, risk_scores = scores,
          formats = fmts, first_reported = first_reported r, last_reported = ts,
          is_banned = is_banned r, average_risk_score = average,
          confidence_level = calculate_confidence_level total average\<rparr>)"

text \<open>
  Lines 172-210: the loaded document after the report is appended and folded into its
  player's aggregate, with that aggregate.
\<close>

definition add_report :: "datetime \<Rightarrow> PlayerReport \<Rightarrow> data \<Rightarrow> data \<times> rep" where
  "add_report clock report d =
     (let ts = (case timestamp report of None \<Rightarrow> clock | Some t \<Rightarrow> t);
          report_dict = report\<lparr>timestamp := Some ts\<rparr>;
          key = lower (username report);
          r = (case map_of (reputation d) key of
                 None \<Rightarrow> fold_report report ts (new_rep report ts)
               | Some old \<Rightarrow> fold_report report ts old)
      in (\<lparr>reports = reports d @ [report_dict],
           reputation = AList.update key r (reputation d)\<rparr>, r))"

text \<open>
  The handler: the response and the file afterwards. No statement of the \<open>try\<close> block
  raises on a document of type \<open>data\<close> (\<open>save_reports\<close> catches its own exception), so
  the handler's \<open>except\<close> branch is not taken and the result is always \<open>Inr\<close>.
\<close>

definition submit_report :: "env \<Rightarrow> PlayerReport \<Rightarrow> data \<Rightarrow> (http_exception + submit_response) \<times> data" where
  "submit_report e report file =
     (let d = load_reports (read_ok e) file;
          (d', r) = add_report (now e) report d
      in (Inr \<lparr>sr_success = True, sr_message = ''Report submitted successfully'',
               sr_username = username report, sr_total_reports = total_reports r,
               sr_confidence_level = confidence_level r\<rparr>,
          save_reports (write_ok e) (write_truncates e) d' file))"

subsection \<open>get\_player\_reputation\<close>

definition get_player_reputation :: "bool \<Rightarrow> string \<Rightarrow> data \<Rightarrow> http_exception + reputation_response" where
  "get_player_reputation rd uname file =
     (let d = load_reports rd file; username_lower = lower uname
      in case map_of (reputation d) username_lower of
           None \<Rightarrow> Inr (NotFound uname ''No reports found for this player'')
         | Some r \<Rightarrow>
             Inr (Found \<lparr>rv_username = rep_username r, rv_total_reports = total_reports r,
                         rv_average_risk_score = round2 (average_risk_score r),
                         rv_confidence_level = confidence_level r,
                         rv_first_reported = first_reported r,
                         rv_last_reported = last_reported r,
                         rv_report_count_by_format = formats r,
                         rv_is_banned = is_banned r\<rparr>))"

subsection \<open>search\_suspicious\_players\<close>

definition entry_of :: "rep \<Rightarrow> search_entry" where
  "entry_of r =
     \<lparr>se_username = rep_username r, se_total_reports = total_reports r,
      se_average_risk_score = round2 (average_risk_score r),
      se_confidence_level = confidence_level r, se_last_reported = last_reported r,
      se_is_banned = is_banned r\<rparr>"

text \<open>
  The loop over \<open>data["reputation"].items()\<close>, with the results so far. An absent or
  empty \<open>confidence\<close> is falsy and filters nothing.
\<close>

fun search_loop :: "int \<Rightarrow> rat \<Rightarrow> string option \<Rightarrow> (string \<times> rep) list \<Rightarrow> search_entry list \<Rightarrow> search_entry list" where
  "search_loop min_reports min_risk_score confidence [] results = results"
| "search_loop min_reports min_risk_score confidence ((uname, r) # items) results =
     (if total_reports r < min_reports
      then search_loop min_reports min_risk_score confidence items results
      else if average_risk_score r < min_risk_score
      then search_loop min_reports min_risk_score confidence items results
      else if (case confidence of None \<Rightarrow> False
               | Some c \<Rightarrow> c \<noteq> [] \<and> confidence_level r \<noteq> c)
      then search_loop min_reports min_risk_score confidence items results
      else search_loop min_reports min_risk_score confidence items (results @ [entry_of r]))"

text \<open>
  \<open>results.sort(key=..., reverse=True)\<close> is a stable sort in descending key order:
  entries with equal keys keep their order. That is the stable ascending sort on the
  negated key.
\<close>

definition search_suspicious_players :: "bool \<Rightarrow> int \<Rightarrow> rat \<Rightarrow> string option \<Rightarrow> int \<Rightarrow> data \<Rightarrow> http_exception + search_response" where
  "search_suspicious_players rd min_reports min_risk_score confidence limit file =
     (let d = load_reports rd file;
          results = search_loop min_reports min_risk_score confidence (reputation d) [];
          results = sort_key (\<lambda>x. - se_total_reports x) results
      in Inr \<lparr>total_found = int (length results), players = slice_to limit results\<rparr>)"

subsection \<open>mark\_player\_banned\<close>

text \<open>
  \<open>str_exc\<close> is \<open>str(e)\<close> on an \<open>HTTPException\<close>, a function of the framework. The
  \<open>HTTPException\<close> raised for an unknown player is an \<open>Exception\<close>: the handler's own
  \<open>except Exception\<close> catches it and raises a new one with status 500, before anything
  is assigned or saved.
\<close>

definition mark_player_banned :: "(http_exception \<Rightarrow> string) \<Rightarrow> env \<Rightarrow> string \<Rightarrow> bool \<Rightarrow> data \<Rightarrow> (http_exception + banned_response) \<times> data" where
  "mark_player_banned str_exc e uname banned file =
     (let d = load_reports (read_ok e) file; username_lower = lower uname
      in case map_of (reputation d) username_lower of
           None \<Rightarrow>
             (Inl (HTTPException 500 (str_exc (HTTPException 404 ''Player not found''))), file)
         | Some r \<Rightarrow>
             (let r1 = r\<lparr>is_banned := banned\<rparr>;
                  r2 = r1\<lparr>confidence_level :=
                            (if banned then ''confirmed'' else confidence_level r1)\<rparr>;
                  d' = d\<lparr>reputation := AList.update username_lower r2 (reputation d)\<rparr>
              in (Inr \<lparr>br_success = True,
                       br_message = ''Player '' @ uname @ '' marked as ''
                                    @ (if banned then ''banned'' else ''not banned''),
                       br_username = uname, br_is_banned = banned\<rparr>,
                  save_reports (write_ok e) (write_truncates e) d' file)))"

subsection \<open>Sequences of requests\<close>

text \<open>
  \<open>PlayerReport(username=u, risk_score=s, game_format=g, timestamp=t)\<close>, the other
  optional fields at their default \<open>None\<close>.
\<close>

definition make_report :: "string \<Rightarrow> rat \<Rightarrow> string \<Rightarrow> datetime option \<Rightarrow> PlayerReport" where
  "make_report u s g t =
     \<lparr>username = u, risk_score = s, game_format = g, timestamp = t,
      reporter_hash = None, factors = None, report_notes = None\<rparr>"

text \<open>A request in which the file is read and written without failure, at clock \<open>t\<close>.\<close>

definition io_ok :: "datetime \<Rightarrow> env" where
  "io_ok t = \<lparr>read_ok = True, write_ok = True, write_truncates = False, now = t\<rparr>"

text \<open>The two mutating requests, and the file after serving one.\<close>

datatype request =
  Submit env PlayerReport
| MarkBanned env string bool

fun serve :: "(http_exception \<Rightarrow> string) \<Rightarrow> request \<Rightarrow> data \<Rightarrow> data" where
  "serve str_exc (Submit e report) file = snd (submit_report e report file)"
| "serve str_exc (MarkBanned e uname banned) file =
     snd (mark_player_banned str_exc e uname banned file)"

fun run :: "(http_exception \<Rightarrow> string) \<Rightarrow> request list \<Rightarrow> data \<Rightarrow> data" where
  "run str_exc [] file = file"
| "run str_exc (q # qs) file = run str_exc qs (serve str_exc q file)"

text \<open>Submitting reports one after the other: the responses in order, and the file.\<close>

fun submit_all :: "(env \<times> PlayerReport) list \<Rightarrow> data \<Rightarrow> (http_exception + submit_response) list \<times> data" where
  "submit_all [] file = ([], file)"
| "submit_all ((e, report) # rest) file =
     (let (resp, file') = submit_report e report file;
          (resps, file'') = submit_all rest file'
      in (resp # resps, file''))"

text \<open>
  \<open>str(e)\<close> as the framework defines it on an \<open>HTTPException\<close>: the status code in
  decimal, a colon and a space, and the detail (status codes are positive).
\<close>

fun decimal :: "nat \<Rightarrow> string" where
  "decimal n =
     (if n < 10 then [char_of (48 + n)]
      else decimal (n div 10) @ [char_of (48 + n mod 10)])"

declare decimal.simps [simp del]

fun str_exception :: "http_exception \<Rightarrow> string" where
  "str_exception (HTTPException status detail) = decimal (nat status) @ '': '' @ detail"

subsection \<open>Notions of the specification\<close>

text \<open>The order \<open>low < medium < high < confirmed\<close> on the four levels.\<close>

definition level_rank :: "string \<Rightarrow> nat option" where
  "level_rank l =
     (if l = ''low'' then Some 0 else if l = ''medium'' then Some 1
      else if l = ''high'' then Some 2 else if l = ''confirmed'' then Some 3 else None)"

definition level_le :: "string \<Rightarrow> string \<Rightarrow> bool" where
  "level_le l1 l2 =
     (case (level_rank l1, level_rank l2) of (Some i, Some j) \<Rightarrow> i \<le> j | _ \<Rightarrow> False)"

text \<open>
  The reports folded into the aggregate of \<open>key\<close>: those of the report list whose
  lower-cased username is \<open>key\<close>, in submission order; and their timestamps.
\<close>

definition folded_reports :: "string \<Rightarrow> data \<Rightarrow> PlayerReport list" where
  "folded_reports key d = filter (\<lambda>x. lower (username x) = key) (reports d)"

definition folded_timestamps :: "string \<Rightarrow> data \<Rightarrow> datetime list" where
  "folded_timestamps key d = List.map_filter timestamp (folded_reports key d)"


text \<open>What a search has to match, in the words of the specification.\<close>

definition matches :: "int \<Rightarrow> rat \<Rightarrow> string option \<Rightarrow> rep \<Rightarrow> bool" where
  "matches min_reports min_risk_score confidence_filter r \<longleftrightarrow>
     total_reports r \<ge> min_reports \<and> average_risk_score r \<ge> min_risk_score \<and>
     (confidence_filter = None \<or> Some (confidence_level r) = confidence_filter)"

subsection \<open>The aggregates and the report list\<close>

text \<open>
  An aggregate agrees with the reports folded into it when it holds the username and
  the timestamp of the first of them, the timestamp of the last, their scores in order,
  their number (also as the sum of the format counters) and the floating-point mean of
  the scores.
\<close>

definition agrees :: "PlayerReport list \<Rightarrow> rep \<Rightarrow> bool" where
  "agrees rs r \<longleftrightarrow>
     rs \<noteq> [] \<and> rep_username r = username (hd rs) \<and>
     timestamp (hd rs) = Some (first_reported r) \<and>
     timestamp (last rs) = Some (last_reported r) \<and>
     risk_scores r = map risk_score rs \<and>
     total_reports r = int (length rs) \<and>
     sum_list (map snd (formats r)) = int (length rs) \<and>
     average_risk_score r = float_mean (map risk_score rs)"

text \<open>
  A document is consistent when every aggregate agrees with the reports of its key,
  and a key without aggregate has no report.
\<close>

definition consistent :: "data \<Rightarrow> bool" where
  "consistent d \<longleftrightarrow>
     (\<forall>key. (map_of (reputation d) key = None \<longrightarrow> folded_reports key d = []) \<and>
            (\<forall>r. map_of (reputation d) key = Some r \<longrightarrow> agrees (folded_reports key d) r))"

section \<open>Properties\<close>

subsection \<open>Auxiliary facts\<close>

lemma map_of_update:
  "map_of (AList.update k v al) k' = (if k' = k then Some v else map_of al k')"
  by (simp add: update_conv')

lemma sum_formats_update:
  "sum_list (map snd (AList.update k ((case map_of al k of None \<Rightarrow> 0 | Some c \<Rightarrow> c) + 1) al))
     = sum_list (map snd al) + (1::int)"
  by (induction al) auto

lemma fold_report_fields:
  "rep_username (fold_report report ts old) = rep_username old"
  "first_reported (fold_report report ts old) = first_reported old"
  "last_reported (fold_report report ts old) = ts"
  "is_banned (fold_report report ts old) = is_banned old"
  "total_reports (fold_report report ts old) = total_reports old + 1"
  "risk_scores (fold_report report ts old) = risk_scores old @ [risk_score report]"
  "average_risk_score (fold_report report ts old) =
     float_mean (risk_scores old @ [risk_score report])"
  "confidence_level (fold_report report ts old) =
     calculate_confidence_level (total_reports old + 1)
       (float_mean (risk_scores old @ [risk_score report]))"
  by (simp_all add: fold_report_def Let_def)

lemma new_rep_fields:
  "rep_username (new_rep report ts) = username report"
  "first_reported (new_rep report ts) = ts"
  "is_banned (new_rep report ts) = False"
  "total_reports (new_rep report ts) = 0"
  "risk_scores (new_rep report ts) = []"
  by (simp_all add: new_rep_def)

lemma snd_add_report:
  "snd (add_report clock report d) =
     (case map_of (reputation d) (lower (username report)) of
        None \<Rightarrow> fold_report report (case timestamp report of None \<Rightarrow> clock | Some t \<Rightarrow> t)
                  (new_rep report (case timestamp report of None \<Rightarrow> clock | Some t \<Rightarrow> t))
      | Some old \<Rightarrow> fold_report report (case timestamp report of None \<Rightarrow> clock | Some t \<Rightarrow> t) old)"
  by (simp add: add_report_def Let_def)

lemma reputation_add:
  "map_of (reputation (fst (add_report clock report d))) key =
     (if key = lower (username report) then Some (snd (add_report clock report d))
      else map_of (reputation d) key)"
  by (simp add: add_report_def Let_def map_of_update)

lemma reports_add:
  "reports (fst (add_report clock report d)) =
     reports d @ [report\<lparr>timestamp := Some (case timestamp report of None \<Rightarrow> clock | Some t \<Rightarrow> t)\<rparr>]"
  by (simp add: add_report_def Let_def)

lemma folded_reports_add:
  "folded_reports key (fst (add_report clock report d)) =
     folded_reports key d @
       (if key = lower (username report)
        then [report\<lparr>timestamp := Some (case timestamp report of None \<Rightarrow> clock | Some t \<Rightarrow> t)\<rparr>]
        else [])"
  by (simp add: folded_reports_def reports_add)

lemma submit_report_ok:
  assumes "read_ok e" and "write_ok e"
  shows "submit_report e report f =
     (Inr \<lparr>sr_success = True, sr_message = ''Report submitted successfully'',
            sr_username = username report,
            sr_total_reports = total_reports (snd (add_report (now e) report f)),
            sr_confidence_level = confidence_level (snd (add_report (now e) report f))\<rparr>,
      fst (add_report (now e) report f))"
  using assms
  by (simp add: submit_report_def load_reports_def save_reports_def Let_def split_beta)


subsection \<open>Rounding errors\<close>









text \<open>The means of the scores 50, 50, 75, 90, one report after the other.\<close>

lemma float_mean_scenario:
  "float_mean [50] = 50" "float_mean [50, 50] = 50"
  "float_mean [50, 50, 75] = 8209686820727467 / 140737488355328"
  "float_mean [50, 50, 75, 90] = 66.25"
  by code_simp+

subsection \<open>Consistency is invariant\<close>

lemma consistentD_None:
  "consistent d \<Longrightarrow> map_of (reputation d) key = None \<Longrightarrow> folded_reports key d = []"
  by (simp add: consistent_def)

lemma consistentD_Some:
  "consistent d \<Longrightarrow> map_of (reputation d) key = Some r \<Longrightarrow> agrees (folded_reports key d) r"
  by (simp add: consistent_def)

lemma agrees_new:
  "agrees [report\<lparr>timestamp := Some ts\<rparr>] (fold_report report ts (new_rep report ts))"
  by (simp add: agrees_def fold_report_def new_rep_def Let_def)

lemma agrees_fold:
  assumes "agrees rs old"
  shows "agrees (rs @ [report\<lparr>timestamp := Some ts\<rparr>]) (fold_report report ts old)"
  using assms
  by (simp add: agrees_def fold_report_def Let_def sum_formats_update)

lemma consistent_empty: "consistent \<lparr>reports = [], reputation = []\<rparr>"
  by (simp add: consistent_def folded_reports_def)

lemma consistent_add:
  assumes "consistent d"
  shows "consistent (fst (add_report clock report d))"
  unfolding consistent_def
proof (intro allI conjI impI)
  fix key
  assume "map_of (reputation (fst (add_report clock report d))) key = None"
  then have "key \<noteq> lower (username report)" and "map_of (reputation d) key = None"
    by (simp_all add: reputation_add split: if_splits)
  with assms show "folded_reports key (fst (add_report clock report d)) = []"
    by (simp add: folded_reports_add consistentD_None)
next
  fix key r
  assume r: "map_of (reputation (fst (add_report clock report d))) key = Some r"
  show "agrees (folded_reports key (fst (add_report clock report d))) r"
  proof (cases "key = lower (username report)")
    case False
    with r have "map_of (reputation d) key = Some r" by (simp add: reputation_add)
    with assms False show ?thesis by (simp add: folded_reports_add consistentD_Some)
  next
    case True
    with r have r_eq: "r = snd (add_report clock report d)" by (simp add: reputation_add)
    show ?thesis
    proof (cases "map_of (reputation d) key")
      case None
      with assms have "folded_reports key d = []" by (rule consistentD_None)
      with True None show ?thesis
        by (simp add: r_eq folded_reports_add snd_add_report agrees_new)
    next
      case (Some old)
      with assms have "agrees (folded_reports key d) old" by (rule consistentD_Some)
      with True Some show ?thesis
        by (simp add: r_eq folded_reports_add snd_add_report agrees_fold)
    qed
  qed
qed

lemma agrees_banned:
  "agrees rs r \<Longrightarrow> agrees rs (r\<lparr>is_banned := b, confidence_level := l\<rparr>)"
  by (simp add: agrees_def)

lemma consistent_submit:
  assumes "consistent file"
  shows "consistent (snd (submit_report e report file))"
proof -
  have "consistent (load_reports (read_ok e) file)"
    using assms by (simp add: load_reports_def consistent_empty)
  then have "consistent (fst (add_report (now e) report (load_reports (read_ok e) file)))"
    by (rule consistent_add)
  then show ?thesis using assms
    by (simp add: submit_report_def save_reports_def Let_def split_beta consistent_empty)
qed

lemma consistent_flags:
  assumes d: "consistent d" and r: "map_of (reputation d) k = Some r"
  shows "consistent (d\<lparr>reputation := AList.update k (r\<lparr>is_banned := b, confidence_level := l\<rparr>) (reputation d)\<rparr>)"
proof -
  have "agrees (folded_reports k d) (r\<lparr>is_banned := b, confidence_level := l\<rparr>)"
    using d r by (intro agrees_banned consistentD_Some)
  then show ?thesis
    using d r by (auto simp add: consistent_def map_of_update folded_reports_def)
qed

lemma consistent_mark:
  assumes "consistent f"
  shows "consistent (snd (mark_player_banned str_exc e uname banned f))"
proof (cases "map_of (reputation (load_reports (read_ok e) f)) (lower uname)")
  case None
  then show ?thesis using assms by (simp add: mark_player_banned_def Let_def)
next
  case (Some r)
  have d: "consistent (load_reports (read_ok e) f)"
    using assms by (simp add: load_reports_def consistent_empty)
  show ?thesis
    using Some assms consistent_flags [OF d Some]
    by (simp add: mark_player_banned_def Let_def save_reports_def consistent_empty)
qed

lemma consistent_serve: "consistent f \<Longrightarrow> consistent (serve str_exc q f)"
  by (cases q) (simp_all add: consistent_submit consistent_mark)

lemma consistent_run: "consistent f \<Longrightarrow> consistent (run str_exc qs f)"
  by (induction qs arbitrary: f) (simp_all add: consistent_serve)

lemma consistent_reachable: "consistent (run str_exc qs initial_file)"
  by (rule consistent_run) (simp add: initial_file_def consistent_empty)



subsection \<open>Searching\<close>

lemma search_loop_filter:
  assumes "confidence \<noteq> Some []"
  shows "search_loop min_reports min_risk_score confidence items results =
     results @ map entry_of (filter (matches min_reports min_risk_score confidence) (map snd items))"
  using assms
proof (induction items arbitrary: results)
  case Nil
  show ?case by simp
next
  case (Cons p items)
  obtain uname r where p: "p = (uname, r)" by (cases p)
  from Cons show ?case
    by (cases confidence) (auto simp add: p matches_def)
qed

lemma insort_key_map:
  "insort_key f (g x) (map g xs) = map g (insort_key (\<lambda>a. f (g a)) x xs)"
  by (induction xs) simp_all

lemma sort_key_map: "sort_key f (map g xs) = map g (sort_key (\<lambda>a. f (g a)) xs)"
  by (induction xs) (simp_all add: insort_key_map)

section \<open>The claims\<close>

subsection \<open>Banning and the level\<close>

text \<open>
  C1, as amended. Banning a player whose aggregate exists sets \<open>is_banned\<close> and forces
  \<open>confidence_level\<close> to \<open>confirmed\<close>. A report submitted for that player afterwards
  keeps \<open>is_banned\<close> but recomputes \<open>confidence_level\<close> by the classification policy
  from the updated \<open>total_reports\<close> and \<open>average_risk_score\<close>: \<open>submit_report\<close> does not
  look at \<open>is_banned\<close>, and the response carries the recomputed level.
\<close>

theorem ban_then_submit:
  assumes "map_of (reputation f) (lower uname) = Some r"
    and "read_ok e1" and "write_ok e1" and "read_ok e2" and "write_ok e2"
    and "lower (username report) = lower uname"
  shows "map_of (reputation (snd (mark_player_banned str_exc e1 uname True f))) (lower uname)
           = Some (r\<lparr>is_banned := True, confidence_level := ''confirmed''\<rparr>) \<and>
         (\<exists>r'. map_of (reputation (snd (submit_report e2 report
                    (snd (mark_player_banned str_exc e1 uname True f))))) (lower uname) = Some r' \<and>
            is_banned r' \<and>
            total_reports r' = total_reports r + 1 \<and>
            average_risk_score r' = float_mean (risk_scores r @ [risk_score report]) \<and>
            confidence_level r' =
              calculate_confidence_level (total_reports r') (average_risk_score r') \<and>
            map_sum id sr_confidence_level (fst (submit_report e2 report
                    (snd (mark_player_banned str_exc e1 uname True f))))
              = Inr (confidence_level r'))"
  using assms
  by (simp add: mark_player_banned_def load_reports_def save_reports_def Let_def map_of_update
        submit_report_ok reputation_add snd_add_report fold_report_fields)

theorem ban_then_submit_witness:
  "map_of (reputation (run str_exception
       [Submit (io_ok 10) (make_report ''Cheater'' 10 ''blitz'' None)] initial_file))
     (lower ''CHEATER'')
     = Some \<lparr>rep_username = ''Cheater'', total_reports = 1, risk_scores = [10],
             formats = [(''blitz'', 1)], first_reported = 10, last_reported = 10,
             is_banned = False, average_risk_score = 10, confidence_level = ''low''\<rparr> \<and>
   lower (username (make_report ''cheater'' 20 ''rapid'' None)) = lower ''CHEATER'' \<and>
   map_of (reputation (snd (mark_player_banned str_exception (io_ok 20) ''CHEATER'' True
       (run str_exception
          [Submit (io_ok 10) (make_report ''Cheater'' 10 ''blitz'' None)] initial_file))))
     (lower ''CHEATER'')
     = Some \<lparr>rep_username = ''Cheater'', total_reports = 1, risk_scores = [10],
             formats = [(''blitz'', 1)], first_reported = 10, last_reported = 10,
             is_banned = True, average_risk_score = 10, confidence_level = ''confirmed''\<rparr> \<and>
   (\<exists>r'. map_of (reputation (snd (submit_report (io_ok 30) (make_report ''cheater'' 20 ''rapid'' None)
          (snd (mark_player_banned str_exception (io_ok 20) ''CHEATER'' True
             (run str_exception
                [Submit (io_ok 10) (make_report ''Cheater'' 10 ''blitz'' None)] initial_file))))))
        (lower ''CHEATER'') = Some r' \<and>
      is_banned r' \<and> total_reports r' = 2 \<and> average_risk_score r' = 15 \<and>
      confidence_level r' = ''low'')"
proof -
  let ?f = "run str_exception
       [Submit (io_ok 10) (make_report ''Cheater'' 10 ''blitz'' None)] initial_file"
  let ?r = "\<lparr>rep_username = ''Cheater'', total_reports = 1, risk_scores = [10],
             formats = [(''blitz'', 1)], first_reported = 10, last_reported = 10,
             is_banned = False, average_risk_score = 10, confidence_level = ''low''\<rparr>"
  have h1: "map_of (reputation ?f) (lower ''CHEATER'') = Some ?r"
    by code_simp
  have h2: "read_ok (io_ok 20)" and h3: "write_ok (io_ok 20)"
    and h4: "read_ok (io_ok 30)" and h5: "write_ok (io_ok 30)"
    by (simp_all add: io_ok_def)
  have h6: "lower (username (make_report ''cheater'' 20 ''rapid'' None)) = lower ''CHEATER''"
    by code_simp
  have m: "float_mean (risk_scores ?r @ [risk_score (make_report ''cheater'' 20 ''rapid'' None)]) = 15"
    by code_simp
  have c: "calculate_confidence_level 2 15 = ''low''"
    by (simp add: calculate_confidence_level_def)
  from ban_then_submit [OF h1 h2 h3 h4 h5 h6, of str_exception] h1 h6 m c
  show ?thesis by auto
qed

text \<open>
  The claim as stated fails: a report with score 10, a ban, and a report with score 20
  leave the player banned at level \<open>low\<close>.
\<close>

theorem banned_not_confirmed_counterexample:
  "valid_report (make_report ''Cheater'' 10 ''blitz'' None) \<and>
   valid_report (make_report ''cheater'' 20 ''rapid'' None) \<and>
   map_of (reputation (run str_exception
       [Submit (io_ok 10) (make_report ''Cheater'' 10 ''blitz'' None),
        MarkBanned (io_ok 20) ''cheater'' True,
        Submit (io_ok 30) (make_report ''cheater'' 20 ''rapid'' None)] initial_file)) ''cheater''
     = Some \<lparr>rep_username = ''Cheater'', total_reports = 2, risk_scores = [10, 20],
             formats = [(''blitz'', 1), (''rapid'', 1)], first_reported = 10, last_reported = 30,
             is_banned = True, average_risk_score = 15, confidence_level = ''low''\<rparr>"
  by code_simp

subsection \<open>A failed save\<close>

text \<open>
  C2, as amended. When the write of \<open>submit_report\<close> fails, \<open>save_reports\<close> catches and
  prints the exception: the caller receives the success response, the same one as when
  the write succeeds. The file is as it was before the request only when the write
  failed before the file was opened; a write that fails after the file has been opened
  leaves a file that later requests load as the empty document.
\<close>

theorem submit_report_save_failure:
  assumes "\<not> write_ok e"
  shows "\<exists>resp. fst (submit_report e report f) = Inr resp \<and> sr_success resp \<and>
           Inr resp = fst (submit_report (e\<lparr>write_ok := True\<rparr>) report f) \<and>
           snd (submit_report e report f) =
             (if write_truncates e then \<lparr>reports = [], reputation = []\<rparr> else f)"
  using assms by (simp add: submit_report_def save_reports_def Let_def split_beta)

theorem submit_report_save_failure_witness:
  "\<not> write_ok \<lparr>read_ok = True, write_ok = False, write_truncates = False, now = 20\<rparr> \<and>
   reputation (run str_exception
        [Submit (io_ok 10) (make_report ''Cheater'' 90 ''blitz'' None)] initial_file) = [(''cheater'',
        \<lparr>rep_username = ''Cheater'', total_reports = 1, risk_scores = [90],
           formats = [(''blitz'', 1)], first_reported = 10, last_reported = 10,
           is_banned = False, average_risk_score = 90, confidence_level = ''low''\<rparr>)] \<and>
   (\<exists>resp. fst (submit_report
                \<lparr>read_ok = True, write_ok = False, write_truncates = False, now = 20\<rparr>
                (make_report ''cheater'' 80 ''rapid'' None) (run str_exception
        [Submit (io_ok 10) (make_report ''Cheater'' 90 ''blitz'' None)] initial_file)) = Inr resp \<and>
           sr_success resp) \<and>
   snd (submit_report \<lparr>read_ok = True, write_ok = False, write_truncates = False, now = 20\<rparr>
          (make_report ''cheater'' 80 ''rapid'' None) (run str_exception
        [Submit (io_ok 10) (make_report ''Cheater'' 90 ''blitz'' None)] initial_file)) = (run str_exception
        [Submit (io_ok 10) (make_report ''Cheater'' 90 ''blitz'' None)] initial_file)"
proof -
  have h: "\<not> write_ok \<lparr>read_ok = True, write_ok = False, write_truncates = False, now = 20\<rparr>"
    by simp
  have v: "reputation (run str_exception
        [Submit (io_ok 10) (make_report ''Cheater'' 90 ''blitz'' None)] initial_file) = [(''cheater'',
        \<lparr>rep_username = ''Cheater'', total_reports = 1, risk_scores = [90],
           formats = [(''blitz'', 1)], first_reported = 10, last_reported = 10,
           is_banned = False, average_risk_score = 90, confidence_level = ''low''\<rparr>)]"
    by code_simp
  from submit_report_save_failure [OF h, of "(make_report ''cheater'' 80 ''rapid'' None)" "(run str_exception
        [Submit (io_ok 10) (make_report ''Cheater'' 90 ''blitz'' None)] initial_file)"] h v
  show ?thesis by auto
qed

text \<open>
  The claim as stated fails. With one report saved, a second report whose write fails
  is answered with the success response. When that write fails after the file was
  opened, the file is left as one that loads as the empty document, and the player saved
  before is no longer found.
\<close>

theorem save_failure_counterexample:
  "valid_report (make_report ''Cheater'' 90 ''blitz'' None) \<and>
   valid_report (make_report ''cheater'' 80 ''rapid'' None) \<and>
   map_option total_reports (map_of (reputation (run str_exception
        [Submit (io_ok 10) (make_report ''Cheater'' 90 ''blitz'' None)] initial_file)) ''cheater'') = Some 1 \<and>
   fst (submit_report \<lparr>read_ok = True, write_ok = False, write_truncates = False, now = 20\<rparr>
          (make_report ''cheater'' 80 ''rapid'' None) (run str_exception
        [Submit (io_ok 10) (make_report ''Cheater'' 90 ''blitz'' None)] initial_file))
     = Inr \<lparr>sr_success = True, sr_message = ''Report submitted successfully'',
             sr_username = ''cheater'', sr_total_reports = 2, sr_confidence_level = ''low''\<rparr> \<and>
   fst (submit_report \<lparr>read_ok = True, write_ok = False, write_truncates = True, now = 20\<rparr>
          (make_report ''cheater'' 80 ''rapid'' None) (run str_exception
        [Submit (io_ok 10) (make_report ''Cheater'' 90 ''blitz'' None)] initial_file))
     = Inr \<lparr>sr_success = True, sr_message = ''Report submitted successfully'',
             sr_username = ''cheater'', sr_total_reports = 2, sr_confidence_level = ''low''\<rparr> \<and>
   snd (submit_report \<lparr>read_ok = True, write_ok = False, write_truncates = True, now = 20\<rparr>
          (make_report ''cheater'' 80 ''rapid'' None) (run str_exception
        [Submit (io_ok 10) (make_report ''Cheater'' 90 ''blitz'' None)] initial_file))
     = \<lparr>reports = [], reputation = []\<rparr> \<and>
   get_player_reputation True ''Cheater''
     (snd (submit_report \<lparr>read_ok = True, write_ok = False, write_truncates = True, now = 20\<rparr>
          (make_report ''cheater'' 80 ''rapid'' None) (run str_exception
        [Submit (io_ok 10) (make_report ''Cheater'' 90 ''blitz'' None)] initial_file)))
     = Inr (NotFound ''Cheater'' ''No reports found for this player'')"
  by code_simp

subsection \<open>The classification policy\<close>

text \<open>
  C3. The classification of (\<open>total_reports\<close>, \<open>average_risk_score\<close>) is \<open>confirmed\<close> iff
  the count is at least 10 and the average at least 80; otherwise \<open>high\<close> iff at least 5
  and 70; otherwise \<open>medium\<close> iff at least 3 and 60; otherwise \<open>low\<close>. Four reports
  with scores 50, 50, 75 and 90 for a username that has no aggregate, each read and
  saved without failure, are answered with the levels \<open>low\<close>, \<open>low\<close>, \<open>low\<close>, \<open>medium\<close>,
  and leave an average of 66.25.
\<close>

theorem confidence_policy:
  "(calculate_confidence_level n a = ''confirmed'' \<longleftrightarrow> n \<ge> 10 \<and> a \<ge> 80) \<and>
   (calculate_confidence_level n a = ''high'' \<longleftrightarrow>
      \<not> (n \<ge> 10 \<and> a \<ge> 80) \<and> n \<ge> 5 \<and> a \<ge> 70) \<and>
   (calculate_confidence_level n a = ''medium'' \<longleftrightarrow>
      \<not> (n \<ge> 10 \<and> a \<ge> 80) \<and> \<not> (n \<ge> 5 \<and> a \<ge> 70) \<and> n \<ge> 3 \<and> a \<ge> 60) \<and>
   (calculate_confidence_level n a = ''low'' \<longleftrightarrow>
      \<not> (n \<ge> 10 \<and> a \<ge> 80) \<and> \<not> (n \<ge> 5 \<and> a \<ge> 70) \<and> \<not> (n \<ge> 3 \<and> a \<ge> 60)) \<and>
   (map_of (reputation f) key = None \<and>
    list_all (\<lambda>(e, r). read_ok e \<and> write_ok e \<and> lower (username r) = key)
      [(e1, r1), (e2, r2), (e3, r3), (e4, r4)] \<and>
    map (risk_score \<circ> snd) [(e1, r1), (e2, r2), (e3, r3), (e4, r4)] = [50, 50, 75, 90] \<longrightarrow>
    map (map_sum id sr_confidence_level)
        (fst (submit_all [(e1, r1), (e2, r2), (e3, r3), (e4, r4)] f))
      = [Inr ''low'', Inr ''low'', Inr ''low'', Inr ''medium''] \<and>
    map_option (\<lambda>r. (total_reports r, average_risk_score r))
        (map_of (reputation (snd (submit_all [(e1, r1), (e2, r2), (e3, r3), (e4, r4)] f))) key)
      = Some (4, 66.25))"
proof -
  have policy: "(calculate_confidence_level n a = ''confirmed'' \<longleftrightarrow> n \<ge> 10 \<and> a \<ge> 80) \<and>
   (calculate_confidence_level n a = ''high'' \<longleftrightarrow>
      \<not> (n \<ge> 10 \<and> a \<ge> 80) \<and> n \<ge> 5 \<and> a \<ge> 70) \<and>
   (calculate_confidence_level n a = ''medium'' \<longleftrightarrow>
      \<not> (n \<ge> 10 \<and> a \<ge> 80) \<and> \<not> (n \<ge> 5 \<and> a \<ge> 70) \<and> n \<ge> 3 \<and> a \<ge> 60) \<and>
   (calculate_confidence_level n a = ''low'' \<longleftrightarrow>
      \<not> (n \<ge> 10 \<and> a \<ge> 80) \<and> \<not> (n \<ge> 5 \<and> a \<ge> 70) \<and> \<not> (n \<ge> 3 \<and> a \<ge> 60))"
    by (simp add: calculate_confidence_level_def)
  have scenario: "map_of (reputation f) key = None \<and>
    list_all (\<lambda>(e, r). read_ok e \<and> write_ok e \<and> lower (username r) = key)
      [(e1, r1), (e2, r2), (e3, r3), (e4, r4)] \<and>
    map (risk_score \<circ> snd) [(e1, r1), (e2, r2), (e3, r3), (e4, r4)] = [50, 50, 75, 90] \<longrightarrow>
    map (map_sum id sr_confidence_level)
        (fst (submit_all [(e1, r1), (e2, r2), (e3, r3), (e4, r4)] f))
      = [Inr ''low'', Inr ''low'', Inr ''low'', Inr ''medium''] \<and>
    map_option (\<lambda>r. (total_reports r, average_risk_score r))
        (map_of (reputation (snd (submit_all [(e1, r1), (e2, r2), (e3, r3), (e4, r4)] f))) key)
      = Some (4, 66.25)"
    by (simp add: submit_report_ok split_beta reputation_add snd_add_report
          fold_report_fields new_rep_fields float_mean_scenario calculate_confidence_level_def)
  from policy scenario show ?thesis by blast
qed

theorem confidence_policy_witness:
  "calculate_confidence_level 4 66.25 = ''medium'' \<and>
   calculate_confidence_level 12 85 = ''confirmed'' \<and>
   map_of (reputation initial_file) ''suspect'' = None \<and>
   map (map_sum id sr_confidence_level)
     (fst (submit_all
        [(io_ok 10, make_report ''Suspect'' 50 ''blitz'' None),
         (io_ok 20, make_report ''Suspect'' 50 ''blitz'' None),
         (io_ok 30, make_report ''suspect'' 75 ''bullet'' None),
         (io_ok 40, make_report ''SUSPECT'' 90 ''rapid'' None)] initial_file))
     = [Inr ''low'', Inr ''low'', Inr ''low'', Inr ''medium''] \<and>
   map_option (\<lambda>r. (total_reports r, average_risk_score r))
     (map_of (reputation (snd (submit_all
        [(io_ok 10, make_report ''Suspect'' 50 ''blitz'' None),
         (io_ok 20, make_report ''Suspect'' 50 ''blitz'' None),
         (io_ok 30, make_report ''suspect'' 75 ''bullet'' None),
         (io_ok 40, make_report ''SUSPECT'' 90 ''rapid'' None)] initial_file))) ''suspect'')
     = Some (4, 66.25)"
proof -
  have l1: "lower ''Suspect'' = ''suspect''" by code_simp
  have l2: "lower ''suspect'' = ''suspect''" by code_simp
  have l3: "lower ''SUSPECT'' = ''suspect''" by code_simp
  have fresh: "map_of (reputation initial_file) ''suspect'' = None"
    by (simp add: initial_file_def)
  have same: "list_all (\<lambda>(e, r). read_ok e \<and> write_ok e \<and> lower (username r) = ''suspect'')
        [(io_ok 10, make_report ''Suspect'' 50 ''blitz'' None),
         (io_ok 20, make_report ''Suspect'' 50 ''blitz'' None),
         (io_ok 30, make_report ''suspect'' 75 ''bullet'' None),
         (io_ok 40, make_report ''SUSPECT'' 90 ''rapid'' None)]"
    by (simp add: io_ok_def make_report_def l1 l2 l3)
  have scores: "map (risk_score \<circ> snd)
        [(io_ok 10, make_report ''Suspect'' 50 ''blitz'' None),
         (io_ok 20, make_report ''Suspect'' 50 ''blitz'' None),
         (io_ok 30, make_report ''suspect'' 75 ''bullet'' None),
         (io_ok 40, make_report ''SUSPECT'' 90 ''rapid'' None)] = [50, 50, 75, 90]"
    by (simp add: make_report_def)
  note inst = confidence_policy [of 4 "66.25" initial_file "''suspect''"
      "io_ok 10" "make_report ''Suspect'' 50 ''blitz'' None"
      "io_ok 20" "make_report ''Suspect'' 50 ''blitz'' None"
      "io_ok 30" "make_report ''suspect'' 75 ''bullet'' None"
      "io_ok 40" "make_report ''SUSPECT'' 90 ''rapid'' None"]
  have "calculate_confidence_level 4 66.25 = ''medium''"
    using inst by simp
  moreover have "calculate_confidence_level 12 85 = ''confirmed''"
    using confidence_policy [of 12 85] by simp
  ultimately show ?thesis
    using inst fresh same scores by blast
qed

subsection \<open>The display username\<close>

text \<open>
  C4, as amended. In every file reached from the initial one, the username an aggregate
  stores is the casing of the first report folded into it. A report submitted for an
  existing aggregate leaves the stored username unchanged, whatever casing the report
  has, and \<open>get_player_reputation\<close> returns the stored one.
\<close>

theorem display_username_first:
  assumes "map_of (reputation (run str_exc reqs initial_file)) key = Some r"
    and "lower (username report) = key" and "read_ok e" and "write_ok e"
  shows "rep_username r = username (hd (folded_reports key (run str_exc reqs initial_file))) \<and>
         map_option rep_username
           (map_of (reputation (snd (submit_report e report (run str_exc reqs initial_file)))) key)
           = Some (rep_username r) \<and>
         (\<exists>v. get_player_reputation True (username report)
                 (snd (submit_report e report (run str_exc reqs initial_file))) = Inr (Found v) \<and>
              rv_username v = rep_username r)"
proof -
  have "agrees (folded_reports key (run str_exc reqs initial_file)) r"
    using consistent_reachable assms(1) by (rule consistentD_Some)
  then have first: "rep_username r = username (hd (folded_reports key (run str_exc reqs initial_file)))"
    by (simp add: agrees_def)
  have kept: "map_of (reputation (snd (submit_report e report (run str_exc reqs initial_file)))) key
      = Some (fold_report report (case timestamp report of None \<Rightarrow> now e | Some t \<Rightarrow> t) r)"
    using assms by (simp add: submit_report_ok reputation_add snd_add_report)
  show ?thesis
    using first kept assms(2)
    by (simp add: get_player_reputation_def load_reports_def Let_def fold_report_fields)
qed

theorem display_username_first_witness:
  "map_of (reputation (run str_exception
       [Submit (io_ok 10) (make_report ''Cheater'' 90 ''blitz'' None)] initial_file)) ''cheater''
     = Some \<lparr>rep_username = ''Cheater'', total_reports = 1, risk_scores = [90],
             formats = [(''blitz'', 1)], first_reported = 10, last_reported = 10,
             is_banned = False, average_risk_score = 90, confidence_level = ''low''\<rparr> \<and>
   lower (username (make_report ''CHEATER'' 90 ''blitz'' None)) = ''cheater'' \<and>
   read_ok (io_ok 20) \<and> write_ok (io_ok 20) \<and>
   map_option rep_username
     (map_of (reputation (snd (submit_report (io_ok 20) (make_report ''CHEATER'' 90 ''blitz'' None)
        (run str_exception
           [Submit (io_ok 10) (make_report ''Cheater'' 90 ''blitz'' None)] initial_file))))
        ''cheater'')
     = Some ''Cheater''"
proof -
  let ?f = "run str_exception
       [Submit (io_ok 10) (make_report ''Cheater'' 90 ''blitz'' None)] initial_file"
  let ?r = "\<lparr>rep_username = ''Cheater'', total_reports = 1, risk_scores = [90],
             formats = [(''blitz'', 1)], first_reported = 10, last_reported = 10,
             is_banned = False, average_risk_score = 90, confidence_level = ''low''\<rparr>"
  have h1: "map_of (reputation ?f) ''cheater'' = Some ?r"
    by code_simp
  have h2: "lower (username (make_report ''CHEATER'' 90 ''blitz'' None)) = ''cheater''"
    by code_simp
  have h3: "read_ok (io_ok 20)" and h4: "write_ok (io_ok 20)"
    by (simp_all add: io_ok_def)
  from display_username_first [OF h1 h2 h3 h4] h1 h2 h3 h4
  show ?thesis by simp
qed

text \<open>
  The claim as stated fails: after reports for \<open>Cheater\<close> and then \<open>CHEATER\<close>, the
  aggregate stores, and the lookup returns, \<open>Cheater\<close>.
\<close>

theorem display_username_counterexample:
  "valid_report (make_report ''Cheater'' 90 ''blitz'' None) \<and>
   valid_report (make_report ''CHEATER'' 90 ''blitz'' None) \<and>
   map username (folded_reports ''cheater'' (run str_exception
       [Submit (io_ok 10) (make_report ''Cheater'' 90 ''blitz'' None),
        Submit (io_ok 20) (make_report ''CHEATER'' 90 ''blitz'' None)] initial_file))
     = [''Cheater'', ''CHEATER''] \<and>
   map_option rep_username (map_of (reputation (run str_exception
       [Submit (io_ok 10) (make_report ''Cheater'' 90 ''blitz'' None),
        Submit (io_ok 20) (make_report ''CHEATER'' 90 ''blitz'' None)] initial_file)) ''cheater'')
     = Some ''Cheater'' \<and>
   get_player_reputation True ''CHEATER'' (run str_exception
       [Submit (io_ok 10) (make_report ''Cheater'' 90 ''blitz'' None),
        Submit (io_ok 20) (make_report ''CHEATER'' 90 ''blitz'' None)] initial_file)
     = Inr (Found \<lparr>rv_username = ''Cheater'', rv_total_reports = 2, rv_average_risk_score = 90,
                    rv_confidence_level = ''low'', rv_first_reported = 10, rv_last_reported = 20,
                    rv_report_count_by_format = [(''blitz'', 2)], rv_is_banned = False\<rparr>)"
  by code_simp

subsection \<open>The first and the last report\<close>

text \<open>
  C5, as amended. In every file reached from the initial one, an aggregate has at least
  one folded report, \<open>first_reported\<close> is the timestamp of the first report folded into
  it and \<open>last_reported\<close> the timestamp of the last one, in the order of submission and
  whatever the timestamps are.
\<close>

theorem first_last_reported:
  assumes "map_of (reputation (run str_exc reqs initial_file)) key = Some r"
  shows "folded_reports key (run str_exc reqs initial_file) \<noteq> [] \<and>
         timestamp (hd (folded_reports key (run str_exc reqs initial_file)))
           = Some (first_reported r) \<and>
         timestamp (last (folded_reports key (run str_exc reqs initial_file)))
           = Some (last_reported r)"
proof -
  have "agrees (folded_reports key (run str_exc reqs initial_file)) r"
    using consistent_reachable assms by (rule consistentD_Some)
  then show ?thesis by (simp add: agrees_def)
qed

theorem first_last_reported_witness:
  "map_of (reputation (run str_exception
       [Submit (io_ok 10) (make_report ''Cheater'' 90 ''blitz'' (Some 200)),
        Submit (io_ok 20) (make_report ''cheater'' 90 ''blitz'' (Some 100))] initial_file))
     ''cheater''
     = Some \<lparr>rep_username = ''Cheater'', total_reports = 2, risk_scores = [90, 90],
             formats = [(''blitz'', 2)], first_reported = 200, last_reported = 100,
             is_banned = False, average_risk_score = 90, confidence_level = ''low''\<rparr> \<and>
   map timestamp (folded_reports ''cheater'' (run str_exception
       [Submit (io_ok 10) (make_report ''Cheater'' 90 ''blitz'' (Some 200)),
        Submit (io_ok 20) (make_report ''cheater'' 90 ''blitz'' (Some 100))] initial_file))
     = [Some 200, Some 100] \<and>
   timestamp (hd (folded_reports ''cheater'' (run str_exception
       [Submit (io_ok 10) (make_report ''Cheater'' 90 ''blitz'' (Some 200)),
        Submit (io_ok 20) (make_report ''cheater'' 90 ''blitz'' (Some 100))] initial_file)))
     = Some 200 \<and>
   timestamp (last (folded_reports ''cheater'' (run str_exception
       [Submit (io_ok 10) (make_report ''Cheater'' 90 ''blitz'' (Some 200)),
        Submit (io_ok 20) (make_report ''cheater'' 90 ''blitz'' (Some 100))] initial_file)))
     = Some 100"
proof -
  let ?f = "run str_exception
       [Submit (io_ok 10) (make_report ''Cheater'' 90 ''blitz'' (Some 200)),
        Submit (io_ok 20) (make_report ''cheater'' 90 ''blitz'' (Some 100))] initial_file"
  let ?r = "\<lparr>rep_username = ''Cheater'', total_reports = 2, risk_scores = [90, 90],
             formats = [(''blitz'', 2)], first_reported = 200, last_reported = 100,
             is_banned = False, average_risk_score = 90, confidence_level = ''low''\<rparr>"
  have h: "map_of (reputation ?f) ''cheater'' = Some ?r"
    by code_simp
  have l: "map timestamp (folded_reports ''cheater'' ?f) = [Some 200, Some 100]"
    by code_simp
  from first_last_reported [OF h] h l show ?thesis by simp
qed

text \<open>
  The claim as stated fails: a report with timestamp 200 followed by a report with the
  explicit timestamp 100 leaves \<open>first_reported = 200\<close>, not the earliest timestamp 100,
  and \<open>last_reported = 100\<close>, not the most recent timestamp 200.
\<close>

theorem first_last_reported_counterexample:
  "valid_report (make_report ''Cheater'' 90 ''blitz'' (Some 200)) \<and>
   valid_report (make_report ''cheater'' 90 ''blitz'' (Some 100)) \<and>
   map_option first_reported (map_of (reputation (run str_exception
       [Submit (io_ok 10) (make_report ''Cheater'' 90 ''blitz'' (Some 200)),
        Submit (io_ok 20) (make_report ''cheater'' 90 ''blitz'' (Some 100))] initial_file))
     ''cheater'') = Some 200 \<and>
   Min (set (folded_timestamps ''cheater'' (run str_exception
       [Submit (io_ok 10) (make_report ''Cheater'' 90 ''blitz'' (Some 200)),
        Submit (io_ok 20) (make_report ''cheater'' 90 ''blitz'' (Some 100))] initial_file))) = 100 \<and>
   map_option last_reported (map_of (reputation (run str_exception
       [Submit (io_ok 10) (make_report ''Cheater'' 90 ''blitz'' (Some 200)),
        Submit (io_ok 20) (make_report ''cheater'' 90 ''blitz'' (Some 100))] initial_file))
     ''cheater'') = Some 100 \<and>
   Max (set (folded_timestamps ''cheater'' (run str_exception
       [Submit (io_ok 10) (make_report ''Cheater'' 90 ''blitz'' (Some 200)),
        Submit (io_ok 20) (make_report ''cheater'' 90 ''blitz'' (Some 100))] initial_file))) = 200"
  by code_simp

subsection \<open>Counts and mean\<close>




subsection \<open>Monotonicity\<close>

text \<open>
  C7. The classification is monotone: with \<open>r1 \<le> r2\<close> and \<open>a1 \<le> a2\<close> the level of
  \<open>(r1, a1)\<close> is at most the level of \<open>(r2, a2)\<close> in the order
  \<open>low < medium < high < confirmed\<close>.
\<close>

theorem confidence_monotone:
  assumes "r1 \<le> r2" and "a1 \<le> a2"
  shows "level_le (calculate_confidence_level r1 a1) (calculate_confidence_level r2 a2)"
  using assms by (simp add: calculate_confidence_level_def level_le_def level_rank_def)

theorem confidence_monotone_witness:
  "(4::int) \<le> 12 \<and> (65::rat) \<le> 85 \<and> calculate_confidence_level 4 65 = ''medium'' \<and>
   calculate_confidence_level 12 85 = ''confirmed'' \<and>
   level_le (calculate_confidence_level 4 65) (calculate_confidence_level 12 85)"
  using confidence_monotone [of 4 12 65 85]
  by (simp add: calculate_confidence_level_def)

subsection \<open>Search\<close>

text \<open>
  C8. For a non-negative \<open>limit\<close> and a \<open>confidence\<close> that is absent or a non-empty
  string (the query parameters are validated to \<open>1 \<le> limit \<le> 1000\<close> and to one of the
  four level names), there is a list \<open>rs\<close> of aggregates of the loaded document that
  holds exactly those with \<open>total_reports \<ge> min_reports\<close>,
  \<open>average_risk_score \<ge> min_risk_score\<close> and, when a filter is given, that
  \<open>confidence_level\<close>, in descending order of \<open>total_reports\<close>, aggregates with equal
  \<open>total_reports\<close> in the order of the dictionary. The search returns \<open>total_found\<close>, the
  length of \<open>rs\<close>, that is the number of matching aggregates, and \<open>players\<close>, the
  entries of the first \<open>limit\<close> aggregates of \<open>rs\<close>: of each its username, its
  \<open>total_reports\<close>, its average rounded to two decimals, its level, \<open>last_reported\<close> and
  \<open>is_banned\<close>.
\<close>

theorem search_result:
  assumes "0 \<le> limit" and "confidence \<noteq> Some []"
  shows "\<exists>rs. mset rs = filter_mset (matches min_reports min_risk_score confidence)
                         (mset (map snd (reputation (load_reports rd f)))) \<and>
           sorted_wrt (\<lambda>a b. total_reports b \<le> total_reports a) rs \<and>
           (\<forall>k. filter (\<lambda>r. total_reports r = k) rs =
                filter (\<lambda>r. total_reports r = k)
                  (filter (matches min_reports min_risk_score confidence)
                     (map snd (reputation (load_reports rd f))))) \<and>
           length rs = length (filter (matches min_reports min_risk_score confidence)
                                 (map snd (reputation (load_reports rd f)))) \<and>
           search_suspicious_players rd min_reports min_risk_score confidence limit f =
             Inr \<lparr>total_found = int (length rs),
                   players = take (nat limit) (map (\<lambda>r. \<lparr>se_username = rep_username r, se_total_reports = total_reports r,
                        se_average_risk_score = round2 (average_risk_score r),
                        se_confidence_level = confidence_level r,
                        se_last_reported = last_reported r, se_is_banned = is_banned r\<rparr>) rs)\<rparr>"
proof -
  let ?ms = "filter (matches min_reports min_risk_score confidence)
                (map snd (reputation (load_reports rd f)))"
  let ?rs = "sort_key (\<lambda>r. - total_reports r) ?ms"
  have entry: "entry_of = (\<lambda>r. \<lparr>se_username = rep_username r, se_total_reports = total_reports r,
                        se_average_risk_score = round2 (average_risk_score r),
                        se_confidence_level = confidence_level r,
                        se_last_reported = last_reported r, se_is_banned = is_banned r\<rparr>)"
    by (rule ext) (simp add: entry_of_def)
  have "sort_key (\<lambda>x. - se_total_reports x) (map entry_of ?ms) = map entry_of ?rs"
    by (simp add: sort_key_map entry_of_def)
  then have result: "search_suspicious_players rd min_reports min_risk_score confidence limit f =
             Inr \<lparr>total_found = int (length ?rs), players = take (nat limit) (map entry_of ?rs)\<rparr>"
    using assms
    by (simp add: search_suspicious_players_def Let_def search_loop_filter slice_to_def)
  have "sorted (map (\<lambda>r. - total_reports r) ?rs)"
    by (rule sorted_sort_key)
  then have sorted: "sorted_wrt (\<lambda>a b. total_reports b \<le> total_reports a) ?rs"
    by (simp add: sorted_wrt_map)
  have stable: "filter (\<lambda>r. total_reports r = k) ?rs = filter (\<lambda>r. total_reports r = k) ?ms" for k
    using sort_key_stable [of "\<lambda>r. - total_reports r" "- k" ?ms] by simp
  have "mset ?rs = filter_mset (matches min_reports min_risk_score confidence)
                         (mset (map snd (reputation (load_reports rd f))))"
    by simp
  moreover have "length ?rs = length ?ms" by simp
  ultimately show ?thesis
    using sorted stable result unfolding entry by blast
qed

theorem search_result_witness:
  "(0::int) \<le> 1 \<and> (None :: string option) \<noteq> Some [] \<and>
   search_suspicious_players True 2 60 None 1 (run str_exception
       [Submit (io_ok 10) (make_report ''alice'' 80 ''blitz'' None),
        Submit (io_ok 20) (make_report ''bob'' 70 ''blitz'' None),
        Submit (io_ok 30) (make_report ''carol'' 60 ''rapid'' None),
        Submit (io_ok 40) (make_report ''Bob'' 90 ''bullet'' None),
        Submit (io_ok 50) (make_report ''Carol'' 60 ''rapid'' None),
        Submit (io_ok 60) (make_report ''CAROL'' 60 ''rapid'' None)] initial_file)
     = Inr \<lparr>total_found = 2,
            players = [\<lparr>se_username = ''carol'', se_total_reports = 3,
                        se_average_risk_score = 60, se_confidence_level = ''medium'',
                        se_last_reported = 60, se_is_banned = False\<rparr>]\<rparr> \<and>
   (\<exists>rs :: rep list. sorted_wrt (\<lambda>a b. total_reports b \<le> total_reports a) rs \<and>
         length rs = 2 \<and>
         search_suspicious_players True 2 60 None 1 (run str_exception
       [Submit (io_ok 10) (make_report ''alice'' 80 ''blitz'' None),
        Submit (io_ok 20) (make_report ''bob'' 70 ''blitz'' None),
        Submit (io_ok 30) (make_report ''carol'' 60 ''rapid'' None),
        Submit (io_ok 40) (make_report ''Bob'' 90 ''bullet'' None),
        Submit (io_ok 50) (make_report ''Carol'' 60 ''rapid'' None),
        Submit (io_ok 60) (make_report ''CAROL'' 60 ''rapid'' None)] initial_file)
           = Inr \<lparr>total_found = int (length rs),
                   players = take (nat 1) (map (\<lambda>r. \<lparr>se_username = rep_username r, se_total_reports = total_reports r,
                        se_average_risk_score = round2 (average_risk_score r),
                        se_confidence_level = confidence_level r,
                        se_last_reported = last_reported r, se_is_banned = is_banned r\<rparr>) rs)\<rparr>)"
proof -
  have h1: "(0::int) \<le> 1" by simp
  have h2: "(None :: string option) \<noteq> Some []" by simp
  have v: "search_suspicious_players True 2 60 None 1 (run str_exception
       [Submit (io_ok 10) (make_report ''alice'' 80 ''blitz'' None),
        Submit (io_ok 20) (make_report ''bob'' 70 ''blitz'' None),
        Submit (io_ok 30) (make_report ''carol'' 60 ''rapid'' None),
        Submit (io_ok 40) (make_report ''Bob'' 90 ''bullet'' None),
        Submit (io_ok 50) (make_report ''Carol'' 60 ''rapid'' None),
        Submit (io_ok 60) (make_report ''CAROL'' 60 ''rapid'' None)] initial_file)
     = Inr \<lparr>total_found = 2,
            players = [\<lparr>se_username = ''carol'', se_total_reports = 3,
                        se_average_risk_score = 60, se_confidence_level = ''medium'',
                        se_last_reported = 60, se_is_banned = False\<rparr>]\<rparr>"
    by code_simp
  have n: "length (filter (matches 2 60 None)
                (map snd (reputation (load_reports True (run str_exception
       [Submit (io_ok 10) (make_report ''alice'' 80 ''blitz'' None),
        Submit (io_ok 20) (make_report ''bob'' 70 ''blitz'' None),
        Submit (io_ok 30) (make_report ''carol'' 60 ''rapid'' None),
        Submit (io_ok 40) (make_report ''Bob'' 90 ''bullet'' None),
        Submit (io_ok 50) (make_report ''Carol'' 60 ''rapid'' None),
        Submit (io_ok 60) (make_report ''CAROL'' 60 ''rapid'' None)] initial_file))))) = 2"
    by code_simp
  from search_result [OF h1 h2, of 2 60 True "(run str_exception
       [Submit (io_ok 10) (make_report ''alice'' 80 ''blitz'' None),
        Submit (io_ok 20) (make_report ''bob'' 70 ''blitz'' None),
        Submit (io_ok 30) (make_report ''carol'' 60 ''rapid'' None),
        Submit (io_ok 40) (make_report ''Bob'' 90 ''bullet'' None),
        Submit (io_ok 50) (make_report ''Carol'' 60 ''rapid'' None),
        Submit (io_ok 60) (make_report ''CAROL'' 60 ''rapid'' None)] initial_file)", unfolded n]
  have "\<exists>rs :: rep list. sorted_wrt (\<lambda>a b. total_reports b \<le> total_reports a) rs \<and>
         length rs = 2 \<and>
         search_suspicious_players True 2 60 None 1 (run str_exception
       [Submit (io_ok 10) (make_report ''alice'' 80 ''blitz'' None),
        Submit (io_ok 20) (make_report ''bob'' 70 ''blitz'' None),
        Submit (io_ok 30) (make_report ''carol'' 60 ''rapid'' None),
        Submit (io_ok 40) (make_report ''Bob'' 90 ''bullet'' None),
        Submit (io_ok 50) (make_report ''Carol'' 60 ''rapid'' None),
        Submit (io_ok 60) (make_report ''CAROL'' 60 ''rapid'' None)] initial_file)
           = Inr \<lparr>total_found = int (length rs),
                   players = take (nat 1) (map (\<lambda>r. \<lparr>se_username = rep_username r, se_total_reports = total_reports r,
                        se_average_risk_score = round2 (average_risk_score r),
                        se_confidence_level = confidence_level r,
                        se_last_reported = last_reported r, se_is_banned = is_banned r\<rparr>) rs)\<rparr>"
    by (elim exE conjE) (intro exI conjI, assumption+)
  with h1 h2 v show ?thesis by (intro conjI)
qed

subsection \<open>Lifting a ban\<close>

text \<open>
  C9. When the aggregate of a username exists and the request reads and saves without
  failure, \<open>mark_player_banned\<close> with \<open>banned = False\<close> succeeds and stores the aggregate
  with \<open>is_banned\<close> false and every other field, \<open>confidence_level\<close> included, as it
  was: the level is not recomputed. The other aggregates, the order of the keys and the
  report list are unchanged.
\<close>

theorem unban_keeps_level:
  assumes "map_of (reputation f) (lower uname) = Some r" and "read_ok e" and "write_ok e"
  shows "fst (mark_player_banned str_exc e uname False f) =
           Inr \<lparr>br_success = True,
                 br_message = ''Player '' @ uname @ '' marked as not banned'',
                 br_username = uname, br_is_banned = False\<rparr> \<and>
         map_of (reputation (snd (mark_player_banned str_exc e uname False f))) (lower uname)
           = Some (r\<lparr>is_banned := False\<rparr>) \<and>
         (\<forall>k. k \<noteq> lower uname \<longrightarrow>
            map_of (reputation (snd (mark_player_banned str_exc e uname False f))) k
              = map_of (reputation f) k) \<and>
         map fst (reputation (snd (mark_player_banned str_exc e uname False f)))
           = map fst (reputation f) \<and>
         reports (snd (mark_player_banned str_exc e uname False f)) = reports f"
proof -
  from assms(1) have "lower uname \<in> set (map fst (reputation f))"
    by (metis map_of_eq_None_iff option.distinct(1) set_map)
  then show ?thesis using assms
    by (simp add: mark_player_banned_def Let_def load_reports_def save_reports_def
          map_of_update update_keys)
qed

theorem unban_keeps_level_witness:
  "map_of (reputation (run str_exception
       [Submit (io_ok 10) (make_report ''Cheater'' 10 ''blitz'' None),
        MarkBanned (io_ok 20) ''CHEATER'' True] initial_file)) (lower ''cheater'')
     = Some \<lparr>rep_username = ''Cheater'', total_reports = 1, risk_scores = [10],
             formats = [(''blitz'', 1)], first_reported = 10, last_reported = 10,
             is_banned = True, average_risk_score = 10, confidence_level = ''confirmed''\<rparr> \<and>
   read_ok (io_ok 30) \<and> write_ok (io_ok 30) \<and>
   map_of (reputation (snd (mark_player_banned str_exception (io_ok 30) ''cheater'' False
       (run str_exception
         [Submit (io_ok 10) (make_report ''Cheater'' 10 ''blitz'' None),
          MarkBanned (io_ok 20) ''CHEATER'' True] initial_file)))) (lower ''cheater'')
     = Some \<lparr>rep_username = ''Cheater'', total_reports = 1, risk_scores = [10],
             formats = [(''blitz'', 1)], first_reported = 10, last_reported = 10,
             is_banned = False, average_risk_score = 10, confidence_level = ''confirmed''\<rparr> \<and>
   calculate_confidence_level 1 10 = ''low''"
proof -
  let ?f = "run str_exception
       [Submit (io_ok 10) (make_report ''Cheater'' 10 ''blitz'' None),
        MarkBanned (io_ok 20) ''CHEATER'' True] initial_file"
  let ?r = "\<lparr>rep_username = ''Cheater'', total_reports = 1, risk_scores = [10],
             formats = [(''blitz'', 1)], first_reported = 10, last_reported = 10,
             is_banned = True, average_risk_score = 10, confidence_level = ''confirmed''\<rparr>"
  have h1: "map_of (reputation ?f) (lower ''cheater'') = Some ?r"
    by code_simp
  have h2: "read_ok (io_ok 30)" and h3: "write_ok (io_ok 30)"
    by (simp_all add: io_ok_def)
  have "calculate_confidence_level 1 10 = ''low''"
    by (simp add: calculate_confidence_level_def)
  with unban_keeps_level [OF h1 h2 h3, of str_exception] h1 h2 h3 show ?thesis
    by simp
qed

subsection \<open>Banning an unknown player\<close>

text \<open>
  C10. When the loaded document has no aggregate for the username, \<open>mark_player_banned\<close>
  leaves the file as it was and raises an \<open>HTTPException\<close> with status 500 whose detail is
  \<open>str\<close> of the 404 exception \<open>Player not found\<close>: the 404 raised inside the \<open>try\<close> block
  is caught by the handler's own \<open>except Exception\<close> and does not reach the caller.
\<close>

theorem mark_player_banned_unknown:
  assumes "map_of (reputation (load_reports (read_ok e) f)) (lower uname) = None"
  shows "mark_player_banned str_exc e uname banned f =
           (Inl (HTTPException 500 (str_exc (HTTPException 404 ''Player not found''))), f) \<and>
         fst (mark_player_banned str_exc e uname banned f)
           \<noteq> Inl (HTTPException 404 ''Player not found'')"
  using assms by (simp add: mark_player_banned_def Let_def)

theorem mark_player_banned_unknown_witness:
  "map_of (reputation (load_reports (read_ok (io_ok 10)) initial_file)) (lower ''Nobody'') = None \<and>
   mark_player_banned str_exception (io_ok 10) ''Nobody'' True initial_file =
     (Inl (HTTPException 500 ''404: Player not found''), initial_file)"
proof -
  have h: "map_of (reputation (load_reports (read_ok (io_ok 10)) initial_file)) (lower ''Nobody'') = None"
    by (simp add: initial_file_def load_reports_def)
  have s: "str_exception (HTTPException 404 ''Player not found'') = ''404: Player not found''"
    by code_simp
  from mark_player_banned_unknown [OF h, of str_exception True] h s show ?thesis by simp
qed

end
